theory Spec2Isabelle
  imports Main "HOL-Library.Word"
begin

section \<open>The C data model of the compatibility shim\<close>

text \<open>
  The translation unit declares two incomplete struct types,
  \<^verbatim>\<open>typedef struct _VipsTarget VipsTarget;\<close> and
  \<^verbatim>\<open>typedef struct _VipsImage VipsImage;\<close>.
  Their layout is never given, so a value of either type cannot be formed or read in
  this unit: only its address can be named. They are types without any constructor.
\<close>

typedecl VipsTarget
typedecl VipsImage

text \<open>
  A pointer is an address; the pointee type is a phantom parameter, as in C where
  \<^verbatim>\<open>VipsImage *\<close> and \<^verbatim>\<open>VipsImage **\<close> differ only in their
  static type. The shim is built for 64-bit Windows, so an address has 64 bits, an
  \<^verbatim>\<open>int\<close> has 32 bits and is read as a signed number.
\<close>

type_synonym addr = "64 word"
type_synonym c_int = "32 word"
type_synonym byte = "8 word"

datatype 'a ptr = Ptr (ptr_addr: addr)

abbreviation NULL :: "'a ptr" where
  "NULL \<equiv> Ptr 0"

text \<open>
  The variadic tail \<^verbatim>\<open>...\<close> of the two stubs: whatever the caller pushed, in
  order. libvips passes option names (strings), integers and pointers there, ended
  by a null pointer; a caller may also pass nothing.
\<close>

datatype vararg = VarInt c_int | VarPtr addr | VarStr string

text \<open>
  The part of the process that a call could observe or change: the bytes of mapped
  memory (\<open>None\<close> at an address that is not mapped, such as address 0), and the bytes
  written so far to each open file descriptor. Everything else (the library's error
  buffer, its caches, other globals) lives in the extension of the record.
\<close>

record world =
  memory :: "addr \<Rightarrow> byte option"
  descriptors :: "c_int \<Rightarrow> byte list option"

section \<open>Effects\<close>

text \<open>
  A C function body is a state transformer that either returns a value together with
  the new state (\<open>Inr\<close>) or ends abnormally (\<open>Inl\<close>: a trap, an abort, or any
  other outcome in which the call does not return to its caller).
\<close>

type_synonym ('e, 's, 'a) prog = "'s \<Rightarrow> 'e + 'a \<times> 's"

definition return_c :: "'a \<Rightarrow> ('e, 's, 'a) prog" where
  "return_c v s = Inr (v, s)"

definition then_c :: "('e, 's, 'a) prog \<Rightarrow> ('a \<Rightarrow> ('e, 's, 'b) prog) \<Rightarrow> ('e, 's, 'b) prog" where
  "then_c m k s = (case m s of Inl e \<Rightarrow> Inl e | Inr (v, s') \<Rightarrow> k v s')"

text \<open>
  The expression statement \<^verbatim>\<open>(void)x;\<close>: the parameter \<open>x\<close> is evaluated (a read
  of a local, not of memory) and its value is dropped.
\<close>

definition void_cast :: "'a \<Rightarrow> ('e, 's, unit) prog" where
  "void_cast x = return_c ()"

text \<open>What a caller sees of an outcome: the returned status as a signed integer, and
  the state left behind.\<close>

fun status_of :: "'e + c_int \<times> 's \<Rightarrow> int option" where
  "status_of (Inl e) = None"
| "status_of (Inr (r, s)) = Some (sint r)"

fun state_of :: "'e + 'a \<times> 's \<Rightarrow> 's option" where
  "state_of (Inl e) = None"
| "state_of (Inr (r, s)) = Some s"

section \<open>The three functions of the shim\<close>

text \<open>
  \<^verbatim>\<open>extern void vips_target_end(VipsTarget *target);\<close> is defined by libvips, not
  by this unit, so it is a parameter of the forwarder: any function from a handle to
  an effect.
  \<^verbatim>\<open>
  void vips_target_finish(VipsTarget *target) {
      vips_target_end(target);
  }
  \<close>
\<close>

definition vips_target_finish ::
  "(VipsTarget ptr \<Rightarrow> ('e, 's, unit) prog) \<Rightarrow> VipsTarget ptr \<Rightarrow> ('e, 's, unit) prog" where
  "vips_target_finish vips_target_end target =
     then_c (vips_target_end target) (\<lambda>_. return_c ())"

text \<open>
  \<^verbatim>\<open>
  int vips_rawsave_fd(VipsImage *in, int fd, ...) {
      (void)in; (void)fd;
      return -1;
  }
  \<close>
  The tail is bound to \<open>va\<close>; the body has no \<^verbatim>\<open>va_start\<close> and never looks at it.
\<close>

definition vips_rawsave_fd ::
  "VipsImage ptr \<Rightarrow> c_int \<Rightarrow> vararg list \<Rightarrow> ('e, 's, c_int) prog" where
  "vips_rawsave_fd inp fd va =
     then_c (void_cast inp) (\<lambda>_.
     then_c (void_cast fd) (\<lambda>_.
     return_c (- 1)))"

text \<open>
  \<^verbatim>\<open>
  int vips_cache(VipsImage *in, VipsImage **out, ...) {
      (void)in; (void)out;
      return -1;
  }
  \<close>
\<close>

definition vips_cache ::
  "VipsImage ptr \<Rightarrow> VipsImage ptr ptr \<Rightarrow> vararg list \<Rightarrow> ('e, 's, c_int) prog" where
  "vips_cache inp out va =
     then_c (void_cast inp) (\<lambda>_.
     then_c (void_cast out) (\<lambda>_.
     return_c (- 1)))"

section \<open>Calls from several threads\<close>




section \<open>Basic facts\<close>

lemma then_c_return_c [simp]: "then_c (return_c v) k s = k v s"
  by (simp add: then_c_def return_c_def)

lemma then_c_return_right [simp]: "then_c m return_c = m"
proof
  fix s
  show "then_c m return_c s = m s"
  proof (cases "m s")
    case (Inl e)
    then show ?thesis by (simp add: then_c_def)
  next
    case (Inr p)
    then show ?thesis by (cases p) (simp add: then_c_def return_c_def)
  qed
qed

lemma vips_rawsave_fd_run: "vips_rawsave_fd inp fd va s = Inr (- 1, s)"
  by (simp add: vips_rawsave_fd_def void_cast_def) (simp add: return_c_def)

lemma vips_cache_run: "vips_cache inp out va s = Inr (- 1, s)"
  by (simp add: vips_cache_def void_cast_def) (simp add: return_c_def)

lemma then_c_vips_rawsave_fd: "then_c (vips_rawsave_fd inp fd va) k = k (- 1)"
  by (rule ext) (simp add: then_c_def vips_rawsave_fd_run)

lemma then_c_vips_cache: "then_c (vips_cache inp out va) k = k (- 1)"
  by (rule ext) (simp add: then_c_def vips_cache_run)





section \<open>The sentinel\<close>

text \<open>
  C7. Both removed-symbol stubs return exactly the integer \<open>-1\<close> for every input, so the
  two share one fixed sentinel value.
\<close>

theorem stubs_return_minus_one:
  "status_of (vips_rawsave_fd inp fd va s) = Some (- 1)
   \<and> status_of (vips_cache inp' out va' s') = Some (- 1)"
  by (simp add: vips_rawsave_fd_run vips_cache_run)

section \<open>The forwarder\<close>

text \<open>
  C1. For every target handle \<open>H\<close> and whatever libvips' \<^verbatim>\<open>vips_target_end\<close> does,
  calling the old name \<^verbatim>\<open>vips_target_finish\<close> with \<open>H\<close> is the same effect as calling
  \<^verbatim>\<open>vips_target_end\<close> with \<open>H\<close>: the same outcome in every state, the same state left
  behind, and the same (void) return value.
\<close>

theorem vips_target_finish_forwards:
  "vips_target_finish vips_target_end H = vips_target_end H"
  by (simp add: vips_target_finish_def)

text \<open>
  C5. The forwarder fails exactly when \<^verbatim>\<open>vips_target_end\<close> fails, and with the same
  error: an abnormal end \<open>Inl e\<close> of the forwarded call is the forwarder's outcome
  unchanged, a normal return stays a normal return, and the state the library leaves
  behind (where it records its errors) is handed to the caller as it is.
\<close>

theorem vips_target_finish_propagates_failure:
  "(vips_target_finish vips_target_end target s = Inl e) = (vips_target_end target s = Inl e)
   \<and> isl (vips_target_finish vips_target_end target s) = isl (vips_target_end target s)
   \<and> state_of (vips_target_finish vips_target_end target s) = state_of (vips_target_end target s)"
  by (simp add: vips_target_finish_def)

section \<open>The removed-symbol stubs\<close>

text \<open>
  C2. There is one negative status \<open>r\<close> such that, for every image handle, every file
  descriptor, every variadic tail (the empty one included) and every state of the
  world, \<^verbatim>\<open>vips_rawsave_fd\<close> returns \<open>r\<close> and hands back the world it was given:
  memory, the descriptors and every other global are unchanged.
\<close>

theorem vips_rawsave_fd_sentinel_no_effect:
  "\<exists>r. sint r < 0 \<and>
     (\<forall>inp fd va (w :: 'z world_scheme).
        vips_rawsave_fd inp fd va w = (Inr (r, w) :: 'e + c_int \<times> 'z world_scheme))"
proof (intro exI conjI allI)
  show "sint (- 1 :: c_int) < 0" by simp
next
  fix inp fd va and w :: "'z world_scheme"
  show "vips_rawsave_fd inp fd va w = (Inr (- 1, w) :: 'e + c_int \<times> 'z world_scheme)"
    by (rule vips_rawsave_fd_run)
qed

text \<open>
  C3. For every image handle and every output-pointer slot \<open>out\<close>, \<^verbatim>\<open>vips_cache\<close>
  returns a negative status and every byte at and after the address of the slot reads
  after the call as it did before; indeed the whole world is the one it was given.
\<close>

theorem vips_cache_leaves_slot_unwritten:
  "\<exists>r w'. vips_cache inp out va (w :: 'z world_scheme) = (Inr (r, w') :: 'e + c_int \<times> 'z world_scheme)
     \<and> sint r < 0
     \<and> memory w' (ptr_addr out + k) = memory w (ptr_addr out + k)
     \<and> w' = w"
proof (intro exI conjI)
  show "vips_cache inp out va w = (Inr (- 1, w) :: 'e + c_int \<times> 'z world_scheme)"
    by (rule vips_cache_run)
  show "sint (- 1 :: c_int) < 0" by simp
qed (rule refl)+

text \<open>
  C8. The stubs are total and safe on every input: for every handle, descriptor,
  output slot, variadic tail and state, each returns normally with the sentinel \<open>-1\<close>
  and the state it was given, so no abnormal outcome is reachable. No argument is
  inspected: the outcome is the same for any other handles, descriptor, slot and tail.
  In particular with null handles, a null output slot, an empty variadic tail and a
  world in which no address at all is mapped (where any dereference would trap),
  each still returns \<open>-1\<close>.
\<close>

theorem stubs_total_on_null:
  "vips_rawsave_fd inp fd va s = Inr (- 1, s)
   \<and> vips_cache inp out va s = Inr (- 1, s)
   \<and> \<not> isl (vips_rawsave_fd inp fd va s)
   \<and> \<not> isl (vips_cache inp out va s)
   \<and> vips_rawsave_fd inp fd va s = vips_rawsave_fd inp' fd' va' s
   \<and> vips_cache inp out va s = vips_cache inp' out' va' s
   \<and> vips_rawsave_fd NULL fd [] \<lparr>memory = \<lambda>_. None, descriptors = \<lambda>_. None\<rparr>
       = Inr (- 1, \<lparr>memory = \<lambda>_. None, descriptors = \<lambda>_. None\<rparr>)
   \<and> vips_cache NULL NULL [] \<lparr>memory = \<lambda>_. None, descriptors = \<lambda>_. None\<rparr>
       = Inr (- 1, \<lparr>memory = \<lambda>_. None, descriptors = \<lambda>_. None\<rparr>)"
  by (simp add: vips_rawsave_fd_run vips_cache_run)

section \<open>Handles and state\<close>

text \<open>
  C4. No function of the shim does anything with a handle but pass it on or drop it.
  The forwarder, for every \<^verbatim>\<open>vips_target_end\<close>, every handle and every state, is
  exactly the one call of \<^verbatim>\<open>vips_target_end\<close> on the handle it received: it adds no
  effect of its own (with a \<^verbatim>\<open>vips_target_end\<close> that does nothing, the state is
  unchanged) and hands over the very pointer it received, once (a
  \<^verbatim>\<open>vips_target_end\<close> that records its argument records exactly \<open>target\<close>).
  The stubs leave the whole state as it was, so nothing is mutated, freed or retained,
  and their status is the same for any other handle and any other contents of memory,
  so nothing is read through a handle.
\<close>

theorem handles_only_passed_or_dropped:
  "vips_target_finish vips_target_end target s = vips_target_end target s
   \<and> vips_target_finish (\<lambda>h. return_c ()) target s = Inr ((), s)
   \<and> vips_target_finish (\<lambda>h seen. Inr ((), h # seen)) target seen = Inr ((), target # seen)
   \<and> state_of (vips_rawsave_fd inp fd va w) = Some w
   \<and> state_of (vips_cache inp out va w) = Some w
   \<and> status_of (vips_rawsave_fd inp fd va w)
       = status_of (vips_rawsave_fd inp' fd va (w\<lparr>memory := m\<rparr>))
   \<and> status_of (vips_cache inp out va w)
       = status_of (vips_cache inp' out' va (w\<lparr>memory := m\<rparr>))"
  by (simp add: vips_target_finish_def vips_rawsave_fd_run vips_cache_run)
     (simp add: return_c_def then_c_def)

text \<open>
  C6. Each function is a stateless single step. A stub called twice with the same
  arguments, with any activity \<open>p\<close> of the program in between, returns the same status
  both times and the pair of calls leaves no trace: the whole is \<open>p\<close> alone. The
  forwarder called twice, with \<open>p\<close> in between, is \<^verbatim>\<open>vips_target_end\<close> called twice
  with \<open>p\<close> in between: it carries nothing from one call to the next.
\<close>

theorem shim_functions_stateless:
  "then_c (vips_rawsave_fd inp fd va) (\<lambda>r1. then_c p (\<lambda>_.
     then_c (vips_rawsave_fd inp fd va) (\<lambda>r2. return_c (r1 = r2))))
     = then_c p (\<lambda>_. return_c True)
   \<and> then_c (vips_cache inp out va) (\<lambda>r1. then_c p (\<lambda>_.
     then_c (vips_cache inp out va) (\<lambda>r2. return_c (r1 = r2))))
     = then_c p (\<lambda>_. return_c True)
   \<and> then_c (vips_target_finish vips_target_end target) (\<lambda>_. then_c q (\<lambda>_.
     vips_target_finish vips_target_end target))
     = then_c (vips_target_end target) (\<lambda>_. then_c q (\<lambda>_. vips_target_end target))"
proof (intro conjI)
  show "then_c (vips_rawsave_fd inp fd va) (\<lambda>r1. then_c p (\<lambda>_.
     then_c (vips_rawsave_fd inp fd va) (\<lambda>r2. return_c (r1 = r2))))
     = then_c p (\<lambda>_. return_c True)"
    by (simp add: then_c_vips_rawsave_fd)
  show "then_c (vips_cache inp out va) (\<lambda>r1. then_c p (\<lambda>_.
     then_c (vips_cache inp out va) (\<lambda>r2. return_c (r1 = r2))))
     = then_c p (\<lambda>_. return_c True)"
    by (simp add: then_c_vips_cache)
  show "then_c (vips_target_finish vips_target_end target) (\<lambda>_. then_c q (\<lambda>_.
     vips_target_finish vips_target_end target))
     = then_c (vips_target_end target) (\<lambda>_. then_c q (\<lambda>_. vips_target_end target))"
    by (simp add: vips_target_finish_def)
qed

section \<open>Concurrent callers\<close>



end
